theory Spec2Isabelle
  imports Main
begin

section \<open>JavaScript values\<close>

text \<open>
  The library \<^verbatim>\<open>src/lib/worker-to-promise.js\<close> is dynamically typed: every argument of
  \<^verbatim>\<open>workerToPromise\<close> may be any value, and what the code does with a value of the wrong
  shape (a \<^verbatim>\<open>TypeError\<close>, a skipped branch) is part of its behaviour. Data values are
  therefore modelled as one datatype. Strings are lists of 8-bit characters (the code units
  below 256), numbers are integers (an integer too large to be a double stands for the
  double nearest to it), objects are association lists of own data properties in
  insertion order (the first binding of a key is the one that counts).
\<close>

datatype jsval =
    Undefined
  | Null
  | Bool bool
  | Number int
  | Str string
  | Array "jsval list"
  | Object "(string \<times> jsval) list"

text \<open>
  A value that is thrown. The engine's own wording of a message and its stack trace are
  not modelled; the string only says which operation failed.
\<close>

datatype js_error = TypeError string | SyntaxError string | HostError string

text \<open>Sequencing of operations that may throw: the first exception ends the evaluation.\<close>

fun and_then :: "js_error + 'a \<Rightarrow> ('a \<Rightarrow> js_error + 'b) \<Rightarrow> js_error + 'b" where
  "and_then (Inl e) f = Inl e"
| "and_then (Inr x) f = f x"

text \<open>\<^verbatim>\<open>ToBoolean\<close>, as used by \<^verbatim>\<open>&&\<close> and \<^verbatim>\<open>if\<close>.\<close>

fun truthy :: "jsval \<Rightarrow> bool" where
  "truthy Undefined = False"
| "truthy Null = False"
| "truthy (Bool b) = b"
| "truthy (Number n) = (n \<noteq> 0)"
| "truthy (Str s) = (s \<noteq> [])"
| "truthy (Array xs) = True"
| "truthy (Object kvs) = True"

text \<open>
  Property read \<^verbatim>\<open>v.k\<close>, for the property names the source reads (\<^verbatim>\<open>exports\<close>,
  \<^verbatim>\<open>default\<close>, \<^verbatim>\<open>from\<close>, \<^verbatim>\<open>length\<close>, \<^verbatim>\<open>name\<close>, \<^verbatim>\<open>message\<close>, \<^verbatim>\<open>stack\<close>): reading a property
  of \<^verbatim>\<open>undefined\<close> or \<^verbatim>\<open>null\<close> throws, a missing property is \<^verbatim>\<open>undefined\<close>, strings and
  arrays have a \<^verbatim>\<open>length\<close>.
\<close>

fun get :: "jsval \<Rightarrow> string \<Rightarrow> js_error + jsval" where
  "get Undefined k = Inl (TypeError (''Cannot read properties of undefined: '' @ k))"
| "get Null k = Inl (TypeError (''Cannot read properties of null: '' @ k))"
| "get (Bool b) k = Inr Undefined"
| "get (Number n) k = Inr Undefined"
| "get (Str s) k = Inr (if k = ''length'' then Number (int (length s)) else Undefined)"
| "get (Array xs) k = Inr (if k = ''length'' then Number (int (length xs)) else Undefined)"
| "get (Object kvs) k = Inr (case map_of kvs k of None \<Rightarrow> Undefined | Some v \<Rightarrow> v)"

subsection \<open>Numbers and strings\<close>

text \<open>The decimal digits of a natural number.\<close>

definition digit :: "nat \<Rightarrow> char" where
  "digit d = ''0123456789'' ! d"

function decimal :: "nat \<Rightarrow> string" where
  "decimal n = (if n < 10 then [digit n] else decimal (n div 10) @ [digit (n mod 10)])"
  by pat_completeness auto
termination
  by (relation "measure (\<lambda>n. n)") auto

declare decimal.simps [simp del]

text \<open>
  The text of a number. A JavaScript number is a double: an integer below \<^verbatim>\<open>2^53\<close> in
  magnitude is one exactly and is written with all its digits. A larger integer stands
  for the double nearest to it (ties to the even significand), and that double is written
  with the fewest digits that still single it out among the doubles, followed by zeros
  while it has at most 21 digits and in exponent form beyond; past the largest double it
  is \<^verbatim>\<open>Infinity\<close>.
\<close>

fun bit_length :: "nat \<Rightarrow> nat" where
  "bit_length n = (if n = 0 then 0 else Suc (bit_length (n div 2)))"

declare bit_length.simps [simp del]

definition round53 :: "nat \<Rightarrow> nat" where
  "round53 n =
     (let b = bit_length n in
      if b \<le> 53 then n
      else
        let shift = b - 53;
            q = n div 2 ^ shift;
            r = n mod 2 ^ shift;
            half = 2 ^ (shift - 1);
            q' = (if half < r \<or> (r = half \<and> odd q) then q + 1 else q)
        in q' * 2 ^ shift)"

text \<open>
  The shortest digits of a double \<open>x\<close>: for the least number of digits \<open>k\<close>, tried upwards
  (17 always suffice), the \<open>k\<close>-digit number \<open>s\<close> nearest to \<open>x\<close>, the even one of two equally
  near, such that \<open>s\<close> followed by zeros rounds to \<open>x\<close>; the result is \<open>s\<close> and the number of
  zeros.
\<close>

fun shortest_digits :: "nat \<Rightarrow> nat \<Rightarrow> nat \<Rightarrow> nat \<times> nat" where
  "shortest_digits x 0 k = (x, 0)"
| "shortest_digits x (Suc fuel) k =
     (let len = length (decimal x);
          scale = 10 ^ (len - k);
          lo = x div scale;
          hi = lo + 1;
          lo_ok = (round53 (lo * scale) = x);
          hi_ok = (round53 (hi * scale) = x)
      in if len \<le> k then (x, 0)
         else if lo_ok \<and> hi_ok then
           (if x - lo * scale < hi * scale - x \<or> (x - lo * scale = hi * scale - x \<and> even lo)
            then (lo, len - k) else (hi, len - k))
         else if lo_ok then (lo, len - k)
         else if hi_ok then (hi, len - k)
         else shortest_digits x fuel (Suc k))"

fun strip_zeros :: "nat \<Rightarrow> nat \<Rightarrow> nat \<Rightarrow> nat \<times> nat" where
  "strip_zeros 0 s e = (s, e)"
| "strip_zeros (Suc fuel) s e =
     (if s \<noteq> 0 \<and> s mod 10 = 0 then strip_zeros fuel (s div 10) (Suc e) else (s, e))"

definition double_text :: "nat \<Rightarrow> string" where
  "double_text x =
     (if 2 ^ 1024 \<le> x then ''Infinity''
      else
        let (s0, e0) = shortest_digits x 17 1;
            (s, e) = strip_zeros 17 s0 e0;
            digits = decimal s;
            n = length digits + e
        in if n \<le> 21 then digits @ replicate e (CHR ''0'')
           else if length digits = 1 then digits @ ''e+'' @ decimal (n - 1)
           else hd digits # CHR ''.'' # tl digits @ ''e+'' @ decimal (n - 1))"

definition Number_text :: "nat \<Rightarrow> string" where
  "Number_text m = (if m < 2 ^ 53 then decimal m else double_text (round53 m))"

definition Number_toString :: "int \<Rightarrow> string" where
  "Number_toString n = (if n < 0 then CHR ''-'' # Number_text (nat (- n)) else Number_text (nat n))"

text \<open>\<^verbatim>\<open>Array.prototype.join\<close> on an array of strings.\<close>

fun join :: "string \<Rightarrow> string list \<Rightarrow> string" where
  "join sep [] = []"
| "join sep [s] = s"
| "join sep (s # t # ts) = s @ sep @ join sep (t # ts)"

text \<open>
  \<^verbatim>\<open>ToString\<close>, as applied by a template literal \<^verbatim>\<open>`${v}`\<close> and by \<^verbatim>\<open>super(message)\<close>. An
  array is rendered by \<^verbatim>\<open>Array.prototype.join\<close> with a comma, where \<^verbatim>\<open>undefined\<close> and
  \<^verbatim>\<open>null\<close> elements give the empty string. An object is \<^verbatim>\<open>[object Object]\<close>, unless it
  has an own property \<^verbatim>\<open>toString\<close>: that property is data, not a function, and the
  conversion throws.
\<close>

fun ToString :: "jsval \<Rightarrow> js_error + string"
  and Array_join :: "string \<Rightarrow> jsval list \<Rightarrow> js_error + string" where
  "ToString Undefined = Inr ''undefined''"
| "ToString Null = Inr ''null''"
| "ToString (Bool b) = Inr (if b then ''true'' else ''false'')"
| "ToString (Number n) = Inr (Number_toString n)"
| "ToString (Str s) = Inr s"
| "ToString (Array xs) = Array_join '','' xs"
| "ToString (Object kvs) =
     (if ''toString'' \<in> set (map fst kvs)
      then Inl (TypeError ''Cannot convert object to primitive value'')
      else Inr ''[object Object]'')"
| "Array_join sep [] = Inr []"
| "Array_join sep (x # xs) =
     and_then (if x = Undefined \<or> x = Null then Inr [] else ToString x) (\<lambda>s.
       if xs = [] then Inr s
       else and_then (Array_join sep xs) (\<lambda>r. Inr (s @ sep @ r)))"

text \<open>\<^verbatim>\<open>String.prototype.split\<close> with a one-character separator.\<close>

fun split :: "char \<Rightarrow> string \<Rightarrow> string list" where
  "split c [] = [[]]"
| "split c (x # xs) =
     (if x = c then [] # split c xs
      else (case split c xs of [] \<Rightarrow> [[x]] | l # ls \<Rightarrow> (x # l) # ls))"

text \<open>
  \<^verbatim>\<open>String.prototype.trim\<close>: white space and line terminators, among the characters
  below 256, are removed at both ends.
\<close>

definition WhiteSpace :: "char \<Rightarrow> bool" where
  "WhiteSpace c =
     (c = CHR 0x09 \<or> c = CHR 0x0A \<or> c = CHR 0x0B \<or> c = CHR 0x0C \<or> c = CHR 0x0D
      \<or> c = CHR 0x20 \<or> c = CHR 0xA0)"

definition trim :: "string \<Rightarrow> string" where
  "trim s = rev (dropWhile WhiteSpace (rev (dropWhile WhiteSpace s)))"

section \<open>WorkerError\<close>

text \<open>
  \<^verbatim>\<open>class WorkerError extends Error\<close>, lines 109 to 125. \<^verbatim>\<open>super(message)\<close> stores
  \<^verbatim>\<open>ToString(message)\<close> unless the message is \<^verbatim>\<open>undefined\<close>, when the inherited empty
  message shows; the stack template converts \<^verbatim>\<open>stack\<close> to a string. Either conversion
  can throw, and then the constructor does.
\<close>

record WorkerError =
  message :: string
  stack :: string
  generatedCode :: string

definition numbered :: "string \<Rightarrow> string" where
  "numbered code =
     join [CHR 0x0A]
       (map (\<lambda>(index, line). decimal (index + 1) @ '': '' @ line)
            (enumerate 0 (split (CHR 0x0A) code)))"

definition banner :: string where
  "banner =
     [CHR 0x0A] @ ''    '' @ [CHR 0x0A] @ ''    '' @ [CHR 0x0A]
     @ ''    ========== GENERATED CODE ==============='' @ [CHR 0x0A] @ [CHR 0x0A] @ ''    ''"

definition new_WorkerError :: "jsval \<Rightarrow> jsval \<Rightarrow> string \<Rightarrow> js_error + WorkerError" where
  "new_WorkerError msg stk code =
     and_then (if msg = Undefined then Inr [] else ToString msg) (\<lambda>m.
       let dump = numbered code in
       and_then (ToString stk) (\<lambda>s.
         Inr \<lparr> message = m,
               stack = s @ banner @ trim dump @ [CHR 0x0A] @ ''    '',
               generatedCode = dump \<rparr>))"

section \<open>Program synthesizer\<close>

subsection \<open>String.prototype.replace with a string pattern\<close>

text \<open>
  \<^verbatim>\<open>text.replace(pattern, replacement)\<close> with a string pattern replaces the first
  occurrence only, and the replacement is a template: \<^verbatim>\<open>$$\<close> stands for a dollar sign,
  \<^verbatim>\<open>$&\<close> for the matched text, a dollar sign with a backquote for the text that
  precedes the match and a dollar sign with an apostrophe for the text that follows it.
  With a string pattern there are no capture groups, so every other use of a dollar sign
  stays as it is.
\<close>

fun indexOf :: "string \<Rightarrow> string \<Rightarrow> (string \<times> string) option" where
  "indexOf pat [] = (if pat = [] then Some ([], []) else None)"
| "indexOf pat (c # cs) =
     (if take (length pat) (c # cs) = pat then Some ([], drop (length pat) (c # cs))
      else (case indexOf pat cs of
              None \<Rightarrow> None
            | Some (preceding, following) \<Rightarrow> Some (c # preceding, following)))"

fun GetSubstitution :: "string \<Rightarrow> string \<Rightarrow> string \<Rightarrow> string \<Rightarrow> string" where
  "GetSubstitution matched preceding following [] = []"
| "GetSubstitution matched preceding following [c] = [c]"
| "GetSubstitution matched preceding following (c # d # cs) =
     (if c = CHR ''$'' \<and> d = CHR ''$''
        then CHR ''$'' # GetSubstitution matched preceding following cs
      else if c = CHR ''$'' \<and> d = CHR ''&''
        then matched @ GetSubstitution matched preceding following cs
      else if c = CHR ''$'' \<and> d = CHR 0x60
        then preceding @ GetSubstitution matched preceding following cs
      else if c = CHR ''$'' \<and> d = CHR 0x27
        then following @ GetSubstitution matched preceding following cs
      else c # GetSubstitution matched preceding following (d # cs))"

definition String_replace :: "string \<Rightarrow> string \<Rightarrow> string \<Rightarrow> string" where
  "String_replace text pat replacement =
     (case indexOf pat text of
        None \<Rightarrow> text
      | Some (preceding, following) \<Rightarrow>
          preceding @ GetSubstitution pat preceding following replacement @ following)"

subsection \<open>createDependencyStrings\<close>

text \<open>
  \<^verbatim>\<open>for (const dependency of dependencies)\<close>: an array gives its elements, a string its
  characters, and nothing else among the data values is iterable.
\<close>

fun iterate :: "jsval \<Rightarrow> js_error + jsval list" where
  "iterate (Array xs) = Inr xs"
| "iterate (Str s) = Inr (map (\<lambda>c. Str [c]) s)"
| "iterate v = Inl (TypeError ''dependencies is not iterable'')"

text \<open>
  The method call \<^verbatim>\<open>dependency.exports.join(',')\<close>: only an array has a \<^verbatim>\<open>join\<close> that is a
  function.
\<close>

fun call_join :: "jsval \<Rightarrow> string \<Rightarrow> js_error + string" where
  "call_join (Array xs) sep = Array_join sep xs"
| "call_join v sep = Inl (TypeError ''dependency.exports.join is not a function'')"

text \<open>
  One turn of the loop, lines 81 and 82, with the array \<^verbatim>\<open>depStrings\<close> passed in and
  returned. A condition \<^verbatim>\<open>a && a.length\<close> reads \<^verbatim>\<open>a.length\<close> only when \<^verbatim>\<open>a\<close> is truthy.
\<close>

definition has_length :: "jsval \<Rightarrow> js_error + bool" where
  "has_length v =
     (if truthy v then and_then (get v ''length'') (\<lambda>l. Inr (truthy l)) else Inr False)"

definition named_statement :: "string \<Rightarrow> string \<Rightarrow> string" where
  "named_statement names source =
     ''const {'' @ names @ ''} = require('' @ [CHR 0x27] @ source @ [CHR 0x27] @ '');''"

definition default_statement :: "string \<Rightarrow> string \<Rightarrow> string" where
  "default_statement name source =
     ''const '' @ name @ '' = require('' @ [CHR 0x27] @ source @ [CHR 0x27] @ '');''"

definition push_exports :: "jsval \<Rightarrow> string list \<Rightarrow> js_error + string list" where
  "push_exports dependency depStrings =
     and_then (get dependency ''exports'') (\<lambda>exports.
     and_then (has_length exports) (\<lambda>c.
       if c then
         and_then (call_join exports '','') (\<lambda>names.
         and_then (get dependency ''from'') (\<lambda>from.
         and_then (ToString from) (\<lambda>source.
           Inr (depStrings @ [named_statement names source]))))
       else Inr depStrings))"

definition push_default :: "jsval \<Rightarrow> string list \<Rightarrow> js_error + string list" where
  "push_default dependency depStrings =
     and_then (get dependency ''default'') (\<lambda>dflt.
     and_then (has_length dflt) (\<lambda>c.
       if c then
         and_then (ToString dflt) (\<lambda>name.
         and_then (get dependency ''from'') (\<lambda>from.
         and_then (ToString from) (\<lambda>source.
           Inr (depStrings @ [default_statement name source]))))
       else Inr depStrings))"

fun for_of :: "jsval list \<Rightarrow> string list \<Rightarrow> js_error + string list" where
  "for_of [] depStrings = Inr depStrings"
| "for_of (dependency # rest) depStrings =
     and_then (push_exports dependency depStrings) (\<lambda>depStrings1.
     and_then (push_default dependency depStrings1) (\<lambda>depStrings2.
       for_of rest depStrings2))"

definition createDependencyStrings :: "jsval \<Rightarrow> js_error + string" where
  "createDependencyStrings dependencies =
     and_then (iterate dependencies) (\<lambda>elements.
     and_then (for_of elements []) (\<lambda>depStrings.
       Inr (join [CHR 0x0A] depStrings)))"

subsection \<open>getFunctionString and buildWorkerScript\<close>

text \<open>
  The first argument of \<^verbatim>\<open>workerToPromise\<close>. The source uses two things of it: its
  \<^verbatim>\<open>name\<close> and the text \<^verbatim>\<open>toString()\<close> returns. A function is given by these two strings;
  anything else a caller passes is a data value.
\<close>

datatype callee = Function string string | Value jsval

fun callee_name :: "callee \<Rightarrow> js_error + jsval" where
  "callee_name (Function name source) = Inr (Str name)"
| "callee_name (Value v) = get v ''name''"

fun callee_toString :: "callee \<Rightarrow> js_error + string" where
  "callee_toString (Function name source) = Inr source"
| "callee_toString (Value v) =
     (if v = Undefined \<or> v = Null then Inl (TypeError ''Cannot read properties: toString'')
      else ToString v)"

definition getFunctionString :: "callee \<Rightarrow> js_error + string" where
  "getFunctionString workerFunc =
     and_then (callee_name workerFunc) (\<lambda>n.
     and_then (ToString n) (\<lambda>name.
     and_then (callee_toString workerFunc) (\<lambda>source.
       Inr (''const '' @ name @ '' = '' @ source))))"

text \<open>The text of \<^verbatim>\<open>__workerScript.toString()\<close>: lines 92 to 102 of the source, as they are.\<close>

definition workerScript_toString :: string where
  "workerScript_toString = join [CHR 0x0A]
     [''function __workerScript() {'',
      ''  __placeholderFor__('WORKER_FUNCTION')'',
      ''  const unknownResult = __placeholderFor__('WORKER_FUNCTION_NAME')(workerData)'',
      ''  Promise.resolve(unknownResult)'',
      ''    .then((data) => {'',
      ''      parentPort.postMessage(`res:${JSON.stringify(data)}`)'',
      ''    })'',
      ''    .catch((err) => {'',
      ''      parentPort.postMessage(`err:${JSON.stringify({message: err.message, stack: err.stack})}`)'',
      ''    })'',
      ''}'']"

text \<open>The template literal of lines 64 to 70, with the dependency statements in place.\<close>

definition script_template :: "string \<Rightarrow> string" where
  "script_template deps = join [CHR 0x0A]
     [[],
      ''        '' @ deps,
      ''        const { parentPort, workerData } = require('node:worker_threads');'',
      ''        '' @ workerScript_toString,
      ''        ;'',
      ''        __workerScript();'',
      ''        '']"

definition buildWorkerScript :: "callee \<Rightarrow> jsval \<Rightarrow> js_error + string" where
  "buildWorkerScript workerFunc dependencies =
     and_then (createDependencyStrings dependencies) (\<lambda>deps.
     and_then (getFunctionString workerFunc) (\<lambda>functionString.
     and_then (callee_name workerFunc) (\<lambda>n.
     and_then (ToString n) (\<lambda>name.
       Inr (String_replace
              (String_replace (script_template deps)
                 ''__placeholderFor__('WORKER_FUNCTION')'' functionString)
              ''__placeholderFor__('WORKER_FUNCTION_NAME')'' name)))))"

section \<open>The synthesizer and the store\<close>

text \<open>
  What the synthesizer does to the memory of the program. The arrays and objects of the
  running program are the cells of a store, each at its address; a new one is added at
  the end. The argument \<^verbatim>\<open>dependencies\<close> is the address of the caller's array, or a value
  that is no object. \<^verbatim>\<open>createDependencyStrings\<close> makes the array \<^verbatim>\<open>depStrings\<close> (line 78),
  pushes statements on it (lines 81 and 82) and joins it (line 85); the loop writes to
  \<^verbatim>\<open>depStrings\<close> alone, so it goes through the elements that \<^verbatim>\<open>dependencies\<close> has when it
  starts. A function's \<^verbatim>\<open>name\<close> and the text of its \<^verbatim>\<open>toString()\<close> cannot be assigned to,
  and \<^verbatim>\<open>workerFunc\<close> is given by them as before.
\<close>

type_synonym store = "jsval list"

datatype handle = At nat | Immediate jsval

definition load :: "store \<Rightarrow> nat \<Rightarrow> jsval" where
  "load \<sigma> a = (if a < length \<sigma> then \<sigma> ! a else Undefined)"

fun deref :: "store \<Rightarrow> handle \<Rightarrow> jsval" where
  "deref \<sigma> (At a) = load \<sigma> a"
| "deref \<sigma> (Immediate v) = v"

fun valid :: "store \<Rightarrow> handle \<Rightarrow> bool" where
  "valid \<sigma> (At a) = (a < length \<sigma>)"
| "valid \<sigma> (Immediate v) = True"

definition allocate :: "jsval \<Rightarrow> store \<Rightarrow> nat \<times> store" where
  "allocate v \<sigma> = (length \<sigma>, \<sigma> @ [v])"

text \<open>\<^verbatim>\<open>Array.prototype.push\<close> on the array at an address.\<close>

definition Array_push :: "nat \<Rightarrow> jsval \<Rightarrow> store \<Rightarrow> store" where
  "Array_push a v \<sigma> =
     (case load \<sigma> a of
        Array xs \<Rightarrow> \<sigma>[a := Array (xs @ [v])]
      | Undefined \<Rightarrow> \<sigma> | Null \<Rightarrow> \<sigma> | Bool b \<Rightarrow> \<sigma> | Number n \<Rightarrow> \<sigma> | Str s \<Rightarrow> \<sigma>
      | Object kvs \<Rightarrow> \<sigma>)"

text \<open>
  The condition and the template of line 81, and those of line 82: the statement to
  push, if the condition holds.
\<close>

definition exports_statement :: "jsval \<Rightarrow> js_error + string option" where
  "exports_statement dependency =
     and_then (get dependency ''exports'') (\<lambda>exports.
     and_then (has_length exports) (\<lambda>c.
       if c then
         and_then (call_join exports '','') (\<lambda>names.
         and_then (get dependency ''from'') (\<lambda>from.
         and_then (ToString from) (\<lambda>source.
           Inr (Some (named_statement names source)))))
       else Inr None))"

definition default_statement_of :: "jsval \<Rightarrow> js_error + string option" where
  "default_statement_of dependency =
     and_then (get dependency ''default'') (\<lambda>dflt.
     and_then (has_length dflt) (\<lambda>c.
       if c then
         and_then (ToString dflt) (\<lambda>name.
         and_then (get dependency ''from'') (\<lambda>from.
         and_then (ToString from) (\<lambda>source.
           Inr (Some (default_statement name source)))))
       else Inr None))"

definition push_if :: "nat \<Rightarrow> js_error + string option \<Rightarrow> store \<Rightarrow> (js_error + unit) \<times> store" where
  "push_if depStrings evaluated \<sigma> =
     (case evaluated of
        Inl e \<Rightarrow> (Inl e, \<sigma>)
      | Inr None \<Rightarrow> (Inr (), \<sigma>)
      | Inr (Some statement) \<Rightarrow> (Inr (), Array_push depStrings (Str statement) \<sigma>))"

fun for_of_store :: "jsval list \<Rightarrow> nat \<Rightarrow> store \<Rightarrow> (js_error + unit) \<times> store" where
  "for_of_store [] depStrings \<sigma> = (Inr (), \<sigma>)"
| "for_of_store (dependency # rest) depStrings \<sigma> =
     (case push_if depStrings (exports_statement dependency) \<sigma> of
        (Inl e, \<sigma>1) \<Rightarrow> (Inl e, \<sigma>1)
      | (Inr u, \<sigma>1) \<Rightarrow>
          (case push_if depStrings (default_statement_of dependency) \<sigma>1 of
             (Inl e, \<sigma>2) \<Rightarrow> (Inl e, \<sigma>2)
           | (Inr u', \<sigma>2) \<Rightarrow> for_of_store rest depStrings \<sigma>2))"

definition createDependencyStrings_store :: "handle \<Rightarrow> store \<Rightarrow> (js_error + string) \<times> store" where
  "createDependencyStrings_store dependencies \<sigma> =
     (case allocate (Array []) \<sigma> of
        (depStrings, \<sigma>1) \<Rightarrow>
          (case iterate (deref \<sigma>1 dependencies) of
             Inl e \<Rightarrow> (Inl e, \<sigma>1)
           | Inr elements \<Rightarrow>
               (case for_of_store elements depStrings \<sigma>1 of
                  (Inl e, \<sigma>2) \<Rightarrow> (Inl e, \<sigma>2)
                | (Inr u, \<sigma>2) \<Rightarrow> (call_join (load \<sigma>2 depStrings) [CHR 0x0A], \<sigma>2))))"

definition buildWorkerScript_store ::
  "callee \<Rightarrow> handle \<Rightarrow> store \<Rightarrow> (js_error + string) \<times> store" where
  "buildWorkerScript_store workerFunc dependencies \<sigma> =
     (case createDependencyStrings_store dependencies \<sigma> of
        (Inl e, \<sigma>1) \<Rightarrow> (Inl e, \<sigma>1)
      | (Inr deps, \<sigma>1) \<Rightarrow>
          (and_then (getFunctionString workerFunc) (\<lambda>functionString.
           and_then (callee_name workerFunc) (\<lambda>n.
           and_then (ToString n) (\<lambda>name.
             Inr (String_replace
                    (String_replace (script_template deps)
                       ''__placeholderFor__('WORKER_FUNCTION')'' functionString)
                    ''__placeholderFor__('WORKER_FUNCTION_NAME')'' name)))),
           \<sigma>1))"

section \<open>Invocation bridge\<close>

subsection \<open>The host\<close>

text \<open>
  What the library takes from Node and does not define: \<^verbatim>\<open>JSON.parse\<close>, \<^verbatim>\<open>JSON.stringify\<close>
  (whose result is a string, or \<^verbatim>\<open>undefined\<close> for a value with no JSON text) and the
  constructor \<^verbatim>\<open>Worker\<close> of \<^verbatim>\<open>node:worker_threads\<close>. The constructor either throws, or
  starts a worker, which is given here by the events it goes on to emit, in the order of
  their delivery: \<^verbatim>\<open>message\<close> events with the posted value and \<^verbatim>\<open>error\<close> events with the
  value that was thrown in the worker.
\<close>

datatype event = MessageEvent jsval | ErrorEvent jsval

record host =
  JSON_parse :: "string \<Rightarrow> js_error + jsval"
  JSON_stringify :: "jsval \<Rightarrow> js_error + jsval"
  new_Worker :: "string \<Rightarrow> (string \<times> jsval) list \<Rightarrow> js_error + event list"

subsection \<open>The harness, inside the worker\<close>

text \<open>
  The two callbacks of \<^verbatim>\<open>__workerScript\<close>, lines 96 to 101: each returns the value it hands
  to \<^verbatim>\<open>parentPort.postMessage\<close>, or throws.
\<close>

definition then_callback :: "host \<Rightarrow> jsval \<Rightarrow> js_error + jsval" where
  "then_callback h data =
     and_then (JSON_stringify h data) (\<lambda>json.
     and_then (ToString json) (\<lambda>text.
       Inr (Str (''res:'' @ text))))"

definition catch_callback :: "host \<Rightarrow> jsval \<Rightarrow> js_error + jsval" where
  "catch_callback h err =
     and_then (get err ''message'') (\<lambda>m.
     and_then (get err ''stack'') (\<lambda>s.
     and_then (JSON_stringify h (Object [(''message'', m), (''stack'', s)])) (\<lambda>json.
     and_then (ToString json) (\<lambda>text.
       Inr (Str (''err:'' @ text))))))"

subsection \<open>The promise and its two listeners\<close>

text \<open>
  What a caller can catch: an error the library wrapped, or a value thrown by the engine
  or the host as it is.
\<close>

datatype reason = Raw js_error | Wrapped WorkerError

datatype promise = Pending | Fulfilled jsval | Rejected reason

text \<open>What a listener does with the promise's \<^verbatim>\<open>resolve\<close> and \<^verbatim>\<open>reject\<close>.\<close>

datatype action = Resolve jsval | Reject WorkerError | Nothing

text \<open>Only the first call of \<^verbatim>\<open>resolve\<close> or \<^verbatim>\<open>reject\<close> changes a promise.\<close>

fun settle :: "action \<Rightarrow> promise \<Rightarrow> promise" where
  "settle (Resolve v) Pending = Fulfilled v"
| "settle (Reject w) Pending = Rejected (Wrapped w)"
| "settle a p = p"

text \<open>\<^verbatim>\<open>String.prototype.substring\<close>, and the method call on a value that may not be a string.\<close>

definition String_substring :: "string \<Rightarrow> nat \<Rightarrow> nat option \<Rightarrow> string" where
  "String_substring s start finish =
     (let finalStart = min start (length s);
          finalEnd = (case finish of None \<Rightarrow> length s | Some e \<Rightarrow> min e (length s));
          lo = min finalStart finalEnd;
          hi = max finalStart finalEnd
      in take (hi - lo) (drop lo s))"

fun call_substring :: "jsval \<Rightarrow> nat \<Rightarrow> nat option \<Rightarrow> js_error + string" where
  "call_substring (Str s) start finish = Inr (String_substring s start finish)"
| "call_substring v start finish = Inl (TypeError ''message.substring is not a function'')"

text \<open>The listener of \<^verbatim>\<open>worker.on('error', ...)\<close>, line 44.\<close>

definition on_error :: "string \<Rightarrow> jsval \<Rightarrow> js_error + action" where
  "on_error script e =
     and_then (get e ''message'') (\<lambda>m.
     and_then (get e ''stack'') (\<lambda>s.
     and_then (new_WorkerError m s script) (\<lambda>w.
       Inr (Reject w))))"

text \<open>The listener of \<^verbatim>\<open>worker.once('message', ...)\<close>, lines 49 to 53.\<close>

definition on_message :: "host \<Rightarrow> string \<Rightarrow> jsval \<Rightarrow> js_error + action" where
  "on_message h script msg =
     and_then (call_substring msg 0 (Some 3)) (\<lambda>type.
     and_then (call_substring msg 4 None) (\<lambda>response.
     and_then (JSON_parse h response) (\<lambda>result.
       if type = ''res'' then Inr (Resolve result)
       else if type = ''err'' then
         and_then (get result ''message'') (\<lambda>m.
         and_then (get result ''stack'') (\<lambda>s.
         and_then (new_WorkerError m s script) (\<lambda>w.
           Inr (Reject w))))
       else Inr Nothing)))"

text \<open>
  The state of one invocation after \<^verbatim>\<open>new Worker\<close> has returned: the promise, whether the
  one-shot \<^verbatim>\<open>message\<close> listener is still registered, and the exception, if any, that
  last left a listener. Nothing in the source catches such an exception; the host reports
  it as uncaught, and the bridge stays as it is: the \<^verbatim>\<open>error\<close> listener, registered with
  \<^verbatim>\<open>on\<close>, hears every later failure signal, and the \<^verbatim>\<open>message\<close> listener, registered with
  \<^verbatim>\<open>once\<close>, is gone after the first message whether it returned or threw.
\<close>

record bridge =
  future :: promise
  listening :: bool
  uncaught :: "js_error option"

definition registered :: bridge where
  "registered = \<lparr> future = Pending, listening = True, uncaught = None \<rparr>"

definition deliver :: "host \<Rightarrow> string \<Rightarrow> bridge \<Rightarrow> event \<Rightarrow> bridge" where
  "deliver h script b ev =
     (case ev of
        ErrorEvent e \<Rightarrow>
          (case on_error script e of
             Inl x \<Rightarrow> b\<lparr> uncaught := Some x \<rparr>
           | Inr a \<Rightarrow> b\<lparr> future := settle a (future b) \<rparr>)
      | MessageEvent msg \<Rightarrow>
          if listening b then
            (case on_message h script msg of
               Inl x \<Rightarrow> b\<lparr> listening := False, uncaught := Some x \<rparr>
             | Inr a \<Rightarrow> b\<lparr> listening := False, future := settle a (future b) \<rparr>)
          else b)"

definition run :: "host \<Rightarrow> string \<Rightarrow> bridge \<Rightarrow> event list \<Rightarrow> bridge" where
  "run h script b events = foldl (deliver h script) b events"

subsection \<open>workerToPromise\<close>

text \<open>
  The object literal \<^verbatim>\<open>{ ...workerProps, eval: true, workerData: payload }\<close> of line 40:
  the own properties of \<^verbatim>\<open>workerProps\<close> are copied in order, then the two properties are
  set, each in the place of a property of that name if there is one and at the end
  otherwise.
\<close>

fun spread :: "jsval \<Rightarrow> (string \<times> jsval) list" where
  "spread (Object kvs) = kvs"
| "spread (Array xs) = zip (map decimal [0..<length xs]) xs"
| "spread (Str s) = zip (map decimal [0..<length s]) (map (\<lambda>c. Str [c]) s)"
| "spread v = []"

fun set_property :: "string \<Rightarrow> jsval \<Rightarrow> (string \<times> jsval) list \<Rightarrow> (string \<times> jsval) list" where
  "set_property k v [] = [(k, v)]"
| "set_property k v ((k', v') # kvs) =
     (if k' = k then (k, v) # kvs else (k', v') # set_property k v kvs)"

definition worker_options :: "jsval \<Rightarrow> jsval \<Rightarrow> (string \<times> jsval) list" where
  "worker_options workerProps payload =
     set_property ''workerData'' payload (set_property ''eval'' (Bool True) (spread workerProps))"

text \<open>
  The result of one call: what \<^verbatim>\<open>workerToPromise\<close> hands back to its caller, and the
  arguments of each \<^verbatim>\<open>new Worker\<close> it evaluated on the way.
\<close>

datatype completion = Thrown reason | Returned bridge

record invocation =
  constructed :: "(string \<times> (string \<times> jsval) list) list"
  completion :: completion

text \<open>
  The promise constructor calls its executor at once. The executor of lines 39 to 55
  constructs the worker and registers the two listeners; the promise it leaves is given
  here as the events of the worker make it. When the executor throws, which only
  \<^verbatim>\<open>new Worker\<close> can make it do, the constructor rejects the promise with the exception
  and returns the promise: the constructor itself does not throw.
\<close>

definition executor :: "host \<Rightarrow> string \<Rightarrow> (string \<times> jsval) list \<Rightarrow> js_error + bridge" where
  "executor h script options =
     and_then (new_Worker h script options) (\<lambda>events.
       Inr (run h script registered events))"

definition new_Promise :: "js_error + bridge \<Rightarrow> js_error + bridge" where
  "new_Promise executed =
     (case executed of
        Inl e \<Rightarrow> Inr \<lparr> future = Rejected (Raw e), listening = False, uncaught = None \<rparr>
      | Inr b \<Rightarrow> Inr b)"

text \<open>
  The \<^verbatim>\<open>message\<close> of a thrown error and the first line of its \<^verbatim>\<open>stack\<close>, which the \<^verbatim>\<open>catch\<close>
  clause of line 59 reads; the lines of the stack trace proper are not modelled.
\<close>

fun error_name :: "js_error \<Rightarrow> string" where
  "error_name (TypeError m) = ''TypeError''"
| "error_name (SyntaxError m) = ''SyntaxError''"
| "error_name (HostError m) = ''Error''"

fun error_message :: "js_error \<Rightarrow> string" where
  "error_message (TypeError m) = m"
| "error_message (SyntaxError m) = m"
| "error_message (HostError m) = m"

definition error_stack :: "js_error \<Rightarrow> string" where
  "error_stack e = error_name e @ '': '' @ error_message e"

text \<open>
  Lines 35 to 61. The parameters \<^verbatim>\<open>dependencies\<close> and \<^verbatim>\<open>workerProps\<close> have defaults, which
  stand in for \<^verbatim>\<open>undefined\<close>. \<^verbatim>\<open>buildWorkerScript\<close> is called on line 36, before the \<^verbatim>\<open>try\<close>
  statement, so what it throws leaves \<^verbatim>\<open>workerToPromise\<close> as it is. The \<^verbatim>\<open>try\<close> block holds
  \<^verbatim>\<open>return new Promise(...)\<close> alone, and its \<^verbatim>\<open>catch\<close> clause throws a WorkerError made of
  what the block threw.
\<close>

definition workerToPromise :: "host \<Rightarrow> callee \<Rightarrow> jsval \<Rightarrow> jsval \<Rightarrow> jsval \<Rightarrow> invocation" where
  "workerToPromise h func payload dependencies workerProps =
     (let deps = (if dependencies = Undefined then Array [] else dependencies);
          props = (if workerProps = Undefined then Object [] else workerProps)
      in case buildWorkerScript func deps of
           Inl e \<Rightarrow> \<lparr> constructed = [], completion = Thrown (Raw e) \<rparr>
         | Inr script \<Rightarrow>
             (let options = worker_options props payload
              in \<lparr> constructed = [(script, options)],
                   completion =
                     (case new_Promise (executor h script options) of
                        Inr promise \<Rightarrow> Returned promise
                      | Inl e \<Rightarrow>
                          (case new_WorkerError (Str (error_message e)) (Str (error_stack e))
                                  script of
                             Inl e' \<Rightarrow> Thrown (Raw e')
                           | Inr w \<Rightarrow> Thrown (Wrapped w))) \<rparr>))"

text \<open>
  The future as the caller holds it once the worker has emitted all its events, if the
  call returned one; and the number of times a run of events changed the promise.
\<close>

definition returned_future :: "invocation \<Rightarrow> promise option" where
  "returned_future i = (case completion i of Thrown r \<Rightarrow> None | Returned b \<Rightarrow> Some (future b))"

fun settlements :: "host \<Rightarrow> string \<Rightarrow> bridge \<Rightarrow> event list \<Rightarrow> nat" where
  "settlements h script b [] = 0"
| "settlements h script b (ev # events) =
     (if future (deliver h script b ev) = future b then 0 else 1)
     + settlements h script (deliver h script b ev) events"

text \<open>
  The WorkerError of the first failure signal among the events on which the \<^verbatim>\<open>error\<close>
  listener returns, if there is one; on a signal whose value is \<^verbatim>\<open>undefined\<close> or \<^verbatim>\<open>null\<close>, or
  whose message or stack has no string conversion, the listener throws.
\<close>

fun first_rejection :: "string \<Rightarrow> event list \<Rightarrow> WorkerError option" where
  "first_rejection script [] = None"
| "first_rejection script (MessageEvent msg # events) = first_rejection script events"
| "first_rejection script (ErrorEvent e # events) =
     (case on_error script e of
        Inl x \<Rightarrow> first_rejection script events
      | Inr a \<Rightarrow>
          (case a of
             Reject w \<Rightarrow> Some w
           | Resolve v \<Rightarrow> first_rejection script events
           | Nothing \<Rightarrow> first_rejection script events))"

section \<open>Dependency declarations as documented\<close>

text \<open>
  The \<^verbatim>\<open>Dependency\<close> typedef of lines 20 to 25: a package path \<^verbatim>\<open>from\<close>, an optional list
  \<^verbatim>\<open>exports\<close> of names and an optional name \<^verbatim>\<open>default\<close>; \<^verbatim>\<open>dependency_object\<close> is the object a
  caller writes for it. \<^verbatim>\<open>statements\<close> lists the binding statements the specification
  asks for: one for the named exports if there are any, then one for the default binding
  if there is one, an empty name counting as none.
\<close>

record dependency =
  dep_from :: string
  dep_exports :: "string list option"
  dep_default :: "string option"

definition dependency_object :: "dependency \<Rightarrow> jsval" where
  "dependency_object d = Object
     ([(''from'', Str (dep_from d))]
      @ (case dep_exports d of None \<Rightarrow> [] | Some names \<Rightarrow> [(''exports'', Array (map Str names))])
      @ (case dep_default d of None \<Rightarrow> [] | Some name \<Rightarrow> [(''default'', Str name)]))"

definition statements :: "dependency \<Rightarrow> string list" where
  "statements d =
     (case dep_exports d of
        None \<Rightarrow> []
      | Some names \<Rightarrow>
          if names = [] then [] else [named_statement (join '','' names) (dep_from d)])
     @ (case dep_default d of
          None \<Rightarrow> []
        | Some name \<Rightarrow> if name = [] then [] else [default_statement name (dep_from d)])"

section \<open>A sample host\<close>

text \<open>
  Concrete inputs on which the theorems below are exercised. \<^verbatim>\<open>node\<close> is a host that
  answers as Node does on the few texts and values it is applied to here: it parses the
  JSON texts \<^verbatim>\<open>8\<close>, \<^verbatim>\<open>1\<close> and that of the error object, rejects the text \<^verbatim>\<open>undefined\<close>, and
  its \<^verbatim>\<open>JSON.stringify\<close> gives \<^verbatim>\<open>undefined\<close> for \<^verbatim>\<open>undefined\<close>. Its worker constructor refuses
  the option \<^verbatim>\<open>execArgv: ['--title=x']\<close>, as Node's does (\<^verbatim>\<open>ERR_WORKER_INVALID_EXEC_ARGV\<close>),
  and otherwise starts a worker that emits the given events. The events given with a
  sample function are those a worker running that function emits.
\<close>

definition test_error :: jsval where
  "test_error = Object [(''message'', Str ''Test Error''), (''stack'', Str ''Error: Test Error'')]"

definition test_error_text :: string where
  \<open>test_error_text = ''{"message":"Test Error","stack":"Error: Test Error"}''\<close>

definition node_parse :: "string \<Rightarrow> js_error + jsval" where
  "node_parse text =
     (if text = ''8'' then Inr (Number 8)
      else if text = ''1'' then Inr (Number 1)
      else if text = test_error_text then Inr test_error
      else Inl (SyntaxError ''Unexpected token''))"

definition node_stringify :: "jsval \<Rightarrow> js_error + jsval" where
  "node_stringify v =
     (if v = Number 8 then Inr (Str ''8'')
      else if v = Number 1 then Inr (Str ''1'')
      else if v = test_error then Inr (Str test_error_text)
      else Inr Undefined)"

definition node_Worker ::
  "event list \<Rightarrow> string \<Rightarrow> (string \<times> jsval) list \<Rightarrow> js_error + event list" where
  "node_Worker events script options =
     (if map_of options ''execArgv'' = Some (Array [Str ''--title=x''])
      then Inl (HostError ''ERR_WORKER_INVALID_EXEC_ARGV'')
      else Inr events)"

definition node :: "event list \<Rightarrow> host" where
  "node events =
     \<lparr> JSON_parse = node_parse, JSON_stringify = node_stringify,
       new_Worker = node_Worker events \<rparr>"

text \<open>
  The function and the payload of the first test of \<^verbatim>\<open>worker-to-promise.spec.js\<close>, whose
  worker posts \<^verbatim>\<open>res:8\<close>; a function whose promise never settles, so that its worker posts
  nothing; a function that posts a message of its own and then throws, so that its worker
  emits that message and then a failure signal; a function that returns \<^verbatim>\<open>undefined\<close> and
  throws later from a timer, so that its worker posts \<^verbatim>\<open>res:undefined\<close> and then emits a
  failure signal; and the dependency of the fourth test.
\<close>

definition workerFunc :: callee where
  "workerFunc = Function ''workerFunc'' ''(payload) => { return payload.a * payload.b }''"

definition payload_2_4 :: jsval where
  "payload_2_4 = Object [(''a'', Number 2), (''b'', Number 4)]"

definition silentFunc :: callee where
  "silentFunc = Function ''silentFunc'' ''(payload) => new Promise(() => {})''"

definition chattyFunc :: callee where
  "chattyFunc = Function ''chattyFunc''
     ''(payload) => { parentPort.postMessage('abc:1'); throw new Error('Test Error') }''"

definition lateFunc :: callee where
  "lateFunc = Function ''lateFunc''
     ''(payload) => { setTimeout(() => { throw new Error('Test Error') }, 100) }''"

definition lodash :: dependency where
  "lodash = \<lparr> dep_from = ''lodash'', dep_exports = Some [''join''], dep_default = Some ''_'' \<rparr>"

text \<open>A bridge that no \<^verbatim>\<open>message\<close> event can change any more.\<close>

definition deaf :: "bridge \<Rightarrow> bool" where
  "deaf b = (\<not> listening b)"

section \<open>Line-numbered dumps\<close>

lemma split_not_Nil: "split c s \<noteq> []"
  by (induction s) (auto split: list.splits)

lemma split_no_separator: "l \<in> set (split c s) \<Longrightarrow> c \<notin> set l"
proof (induction s arbitrary: l)
  case Nil
  then show ?case by simp
next
  case (Cons x xs)
  then show ?case
    by (cases "split c xs") (auto split: if_splits)
qed

lemma split_append_separator:
  "c \<notin> set l \<Longrightarrow> split c (l @ c # rest) = l # split c rest"
  by (induction l) auto

lemma split_one_line: "c \<notin> set l \<Longrightarrow> split c l = [l]"
  by (induction l) auto

lemma split_join:
  "ls \<noteq> [] \<Longrightarrow> (\<And>l. l \<in> set ls \<Longrightarrow> c \<notin> set l) \<Longrightarrow> split c (join [c] ls) = ls"
proof (induction "[c]" ls rule: join.induct)
  case 1
  then show ?case by simp
next
  case (2 s)
  then show ?case by (simp add: split_one_line)
next
  case (3 s t ts)
  then show ?case by (simp add: split_append_separator)
qed

lemma digit_not_newline: "d < 10 \<Longrightarrow> digit d \<noteq> CHR 0x0A"
proof -
  assume "d < 10"
  then have "d \<in> {0, 1, 2, 3, 4, 5, 6, 7, 8, 9}" by auto
  then show ?thesis by (auto simp: digit_def)
qed

lemma decimal_no_newline: "CHR 0x0A \<notin> set (decimal n)"
proof (induction n rule: decimal.induct)
  case (1 n)
  show ?case
  proof (cases "n < 10")
    case True
    then show ?thesis using digit_not_newline [of n] by (auto simp: decimal.simps [of n])
  next
    case False
    then have "n mod 10 < 10" by simp
    with False 1 show ?thesis
      using digit_not_newline [of "n mod 10"] by (auto simp: decimal.simps [of n])
  qed
qed

lemma numbered_lines:
  "split (CHR 0x0A) (numbered code) =
     map (\<lambda>(index, line). decimal (index + 1) @ '': '' @ line)
         (enumerate 0 (split (CHR 0x0A) code))"
  unfolding numbered_def
proof (rule split_join)
  show "map (\<lambda>(index, line). decimal (index + 1) @ '': '' @ line)
          (enumerate 0 (split (CHR 0x0A) code)) \<noteq> []"
    using split_not_Nil [of "CHR 0x0A" code] by (cases "split (CHR 0x0A) code") auto
next
  fix l
  assume "l \<in> set (map (\<lambda>(index, line). decimal (index + 1) @ '': '' @ line)
                     (enumerate 0 (split (CHR 0x0A) code)))"
  then obtain i line where l: "l = decimal (i + 1) @ '': '' @ line"
    and "(i, line) \<in> set (enumerate 0 (split (CHR 0x0A) code))"
    by auto
  then have "line \<in> set (split (CHR 0x0A) code)"
    by (auto simp: in_set_enumerate_eq)
  then have "CHR 0x0A \<notin> set line"
    by (rule split_no_separator)
  with l show "CHR 0x0A \<notin> set l"
    by (simp add: decimal_no_newline)
qed

text \<open>
  Claim C7, as the code has it. For a message string, a stack string and a program text,
  the constructor returns an error whose message is the given message and whose
  \<^verbatim>\<open>generatedCode\<close> is the program text with every line prefixed by its 1-based line number
  and a colon and a space. Its stack is the given stack, then a fixed banner, then that
  dump with the white space at its two ends removed, then a line break and four spaces:
  the stack is not the plain concatenation of the given stack and the dump.
\<close>

theorem WorkerError_fields:
  "\<exists>w. new_WorkerError (Str m) (Str s) code = Inr w
       \<and> message w = m
       \<and> split (CHR 0x0A) (generatedCode w) =
           map (\<lambda>(index, line). decimal (index + 1) @ '': '' @ line)
               (enumerate 0 (split (CHR 0x0A) code))
       \<and> stack w = s @ banner @ trim (generatedCode w) @ [CHR 0x0A] @ ''    ''"
  by (simp add: new_WorkerError_def Let_def numbered_lines)

text \<open>
  Claim C7 as stated fails: for the message \<^verbatim>\<open>m\<close>, the stack \<^verbatim>\<open>s\<close> and the one-line program
  \<^verbatim>\<open>a\<close>, the error that the claim describes, with the stack \<^verbatim>\<open>s\<close> followed at once by the
  dump \<^verbatim>\<open>1: a\<close>, is not the one the constructor builds.
\<close>

theorem WorkerError_stack_counterexample:
  "new_WorkerError (Str ''m'') (Str ''s'') ''a'' \<noteq>
     Inr \<lparr> message = ''m'', stack = ''s'' @ numbered ''a'', generatedCode = numbered ''a'' \<rparr>"
  by code_simp

section \<open>The synthesizer on documented inputs\<close>

lemma Array_join_strings: "Array_join sep (map Str names) = Inr (join sep names)"
proof (induction names)
  case Nil
  then show ?case by simp
next
  case (Cons n ns)
  then show ?case by (cases ns) simp_all
qed

lemma has_length_Array: "has_length (Array xs) = Inr (xs \<noteq> [])"
  by (simp add: has_length_def)

lemma has_length_Str: "has_length (Str s) = Inr (s \<noteq> [])"
  by (simp add: has_length_def)

lemma has_length_Undefined: "has_length Undefined = Inr False"
  by (simp add: has_length_def)

lemma push_exports_dependency:
  "push_exports (dependency_object d) depStrings =
     Inr (depStrings @
       (case dep_exports d of
          None \<Rightarrow> []
        | Some names \<Rightarrow>
            if names = [] then [] else [named_statement (join '','' names) (dep_from d)]))"
  by (cases "dep_exports d"; cases "dep_default d")
     (simp_all add: push_exports_def dependency_object_def has_length_Array
        has_length_Undefined Array_join_strings)

lemma push_default_dependency:
  "push_default (dependency_object d) depStrings =
     Inr (depStrings @
       (case dep_default d of
          None \<Rightarrow> []
        | Some name \<Rightarrow> if name = [] then [] else [default_statement name (dep_from d)]))"
  by (cases "dep_exports d"; cases "dep_default d")
     (simp_all add: push_default_def dependency_object_def has_length_Str
        has_length_Undefined)

lemma for_of_dependencies:
  "for_of (map dependency_object ds) depStrings = Inr (depStrings @ concat (map statements ds))"
proof (induction ds arbitrary: depStrings)
  case Nil
  then show ?case by simp
next
  case (Cons d ds)
  then show ?case
    by (simp add: push_exports_dependency push_default_dependency statements_def)
qed

lemma createDependencyStrings_dependencies:
  "createDependencyStrings (Array (map dependency_object ds)) =
     Inr (join [CHR 0x0A] (concat (map statements ds)))"
  by (simp add: createDependencyStrings_def for_of_dependencies)

text \<open>
  For a function and documented dependency declarations the synthesizer does not throw,
  and this is the text it returns.
\<close>

lemma buildWorkerScript_Function:
  "buildWorkerScript (Function name source) (Array (map dependency_object ds)) =
     Inr (String_replace
            (String_replace (script_template (join [CHR 0x0A] (concat (map statements ds))))
               ''__placeholderFor__('WORKER_FUNCTION')'' (''const '' @ name @ '' = '' @ source))
            ''__placeholderFor__('WORKER_FUNCTION_NAME')'' name)"
  by (simp add: buildWorkerScript_def createDependencyStrings_dependencies
      getFunctionString_def)

text \<open>
  Claim C5. For every list of dependency declarations, \<^verbatim>\<open>createDependencyStrings\<close> returns,
  without throwing, the statements of the declarations in declaration order, joined by
  line breaks: each declaration gives its named-exports statement, if its list of
  exports is not empty, before its default-binding statement, if it has a default name.
  A declaration with neither gives no statement.
\<close>

theorem createDependencyStrings_in_order:
  "createDependencyStrings (Array (map dependency_object ds)) =
     Inr (join [CHR 0x0A] (concat (map statements ds)))
   \<and> statements \<lparr> dep_from = source, dep_exports = None, dep_default = None \<rparr> = []"
  by (simp add: createDependencyStrings_dependencies statements_def)

theorem createDependencyStrings_in_order_witness:
  "createDependencyStrings
     (Array (map dependency_object
        [lodash, \<lparr> dep_from = ''./add'', dep_exports = None, dep_default = None \<rparr>])) =
     Inr (''const {join} = require('lodash');'' @ [CHR 0x0A] @ ''const _ = require('lodash');'')"
  using createDependencyStrings_in_order
    [of "[lodash, \<lparr> dep_from = ''./add'', dep_exports = None, dep_default = None \<rparr>]"]
  by (simp add: statements_def lodash_def named_statement_def default_statement_def)

section \<open>The options of the worker\<close>

lemma map_of_set_property: "map_of (set_property k v kvs) = (map_of kvs)(k \<mapsto> v)"
  by (induction kvs) (auto simp: fun_eq_iff)

lemma map_of_worker_options:
  "map_of (worker_options (Object kvs) payload) =
     (map_of kvs)(''eval'' \<mapsto> Bool True, ''workerData'' \<mapsto> payload)"
  by (simp add: worker_options_def map_of_set_property)




section \<open>The bridge\<close>

lemma settle_settled: "p \<noteq> Pending \<Longrightarrow> settle a p = p"
  by (cases a; cases p) simp_all

lemma run_Nil: "run h script b [] = b"
  by (simp add: run_def)

lemma run_Cons: "run h script b (ev # events) = run h script (deliver h script b ev) events"
  by (simp add: run_def)

lemma run_append: "run h script b (xs @ ys) = run h script (run h script b xs) ys"
  by (simp add: run_def)

lemma deliver_settled: "future b \<noteq> Pending \<Longrightarrow> future (deliver h script b ev) = future b"
  by (auto simp: deliver_def settle_settled split: event.splits sum.splits)

lemma run_settled: "future b \<noteq> Pending \<Longrightarrow> future (run h script b events) = future b"
proof (induction events arbitrary: b)
  case Nil
  then show ?case by (simp add: run_Nil)
next
  case (Cons ev events)
  then show ?case by (simp add: run_Cons deliver_settled)
qed

lemma settlements_settled: "future b \<noteq> Pending \<Longrightarrow> settlements h script b events = 0"
proof (induction events arbitrary: b)
  case Nil
  then show ?case by simp
next
  case (Cons ev events)
  then show ?case by (simp add: deliver_settled)
qed

lemma settlements_pending:
  "future b = Pending \<Longrightarrow>
     settlements h script b events = (if future (run h script b events) = Pending then 0 else 1)"
proof (induction events arbitrary: b)
  case Nil
  then show ?case by (simp add: run_Nil)
next
  case (Cons ev events)
  show ?case
  proof (cases "future (deliver h script b ev) = Pending")
    case True
    with Cons show ?thesis by (simp add: run_Cons)
  next
    case False
    with Cons.prems show ?thesis
      by (simp add: run_Cons settlements_settled run_settled)
  qed
qed

lemma deaf_message: "deaf b \<Longrightarrow> deliver h script b (MessageEvent msg) = b"
  by (auto simp: deaf_def deliver_def)

lemma deaf_after_message: "deaf (deliver h script b (MessageEvent msg))"
  by (auto simp: deaf_def deliver_def split: sum.splits)

lemma deaf_deliver: "deaf b \<Longrightarrow> deaf (deliver h script b ev)"
  by (auto simp: deaf_def deliver_def split: event.splits sum.splits)

lemma deaf_run: "deaf b \<Longrightarrow> deaf (run h script b events)"
  by (induction events arbitrary: b) (simp_all add: run_Nil run_Cons deaf_deliver)

lemma later_message_dropped:
  "deliver h script (run h script (deliver h script b (MessageEvent first)) between)
     (MessageEvent later) =
   run h script (deliver h script b (MessageEvent first)) between"
  by (simp add: deaf_message deaf_run deaf_after_message)

lemma on_error_Reject: "on_error script e = Inr a \<Longrightarrow> \<exists>w. a = Reject w"
  by (cases "get e ''message''"; cases "get e ''stack''";
      cases "new_WorkerError (projr (get e ''message'')) (projr (get e ''stack'')) script")
     (auto simp: on_error_def)

lemma first_error_decides:
  "on_error script e = Inr a \<Longrightarrow>
     future (run h script registered (ErrorEvent e # events)) = settle a Pending"
proof -
  assume a: "on_error script e = Inr a"
  then obtain w where "a = Reject w" using on_error_Reject by blast
  with a have "future (deliver h script registered (ErrorEvent e)) = Rejected (Wrapped w)"
    by (simp add: deliver_def registered_def)
  then show ?thesis using \<open>a = Reject w\<close> by (simp add: run_Cons run_settled)
qed

lemma first_message_decides:
  "on_message h script msg = Inr a \<Longrightarrow> a \<noteq> Nothing \<Longrightarrow>
     future (run h script registered (MessageEvent msg # events)) = settle a Pending"
proof -
  assume a: "on_message h script msg = Inr a" and n: "a \<noteq> Nothing"
  have d: "future (deliver h script registered (MessageEvent msg)) = settle a Pending"
    using a by (simp add: deliver_def registered_def)
  from n have "settle a Pending \<noteq> Pending" by (cases a) simp_all
  with d show ?thesis by (simp add: run_Cons run_settled)
qed

lemma on_message_other_tag:
  "String_substring m 0 (Some 3) \<noteq> ''res'' \<Longrightarrow> String_substring m 0 (Some 3) \<noteq> ''err'' \<Longrightarrow>
     on_message h script (Str m) =
       (case JSON_parse h (String_substring m 4 None) of
          Inl x \<Rightarrow> Inl x
        | Inr result \<Rightarrow> Inr Nothing)"
  by (simp add: on_message_def split: sum.splits)

lemma on_message_unparsable:
  "JSON_parse h (String_substring m 4 None) = Inl x \<Longrightarrow> on_message h script (Str m) = Inl x"
  by (simp add: on_message_def)

lemma deliver_unparsable:
  "JSON_parse h (String_substring m 4 None) = Inl x \<Longrightarrow>
     deliver h script registered (MessageEvent (Str m)) =
       \<lparr> future = Pending, listening = False, uncaught = Some x \<rparr>"
  by (simp add: deliver_def registered_def on_message_unparsable)

text \<open>
  A pending promise whose message listener is gone: only a failure signal on which the
  \<^verbatim>\<open>error\<close> listener returns can settle it, and the first one does.
\<close>

lemma run_deaf_pending:
  "future b = Pending \<Longrightarrow> \<not> listening b \<Longrightarrow>
     future (run h script b events) =
       (case first_rejection script events of
          None \<Rightarrow> Pending
        | Some w \<Rightarrow> Rejected (Wrapped w))"
proof (induction events arbitrary: b)
  case Nil
  then show ?case by (simp add: run_Nil)
next
  case (Cons ev events)
  show ?case
  proof (cases ev)
    case (MessageEvent msg)
    with Cons.prems have "deliver h script b ev = b" by (simp add: deliver_def)
    with Cons MessageEvent show ?thesis by (simp add: run_Cons)
  next
    case (ErrorEvent e)
    show ?thesis
    proof (cases "on_error script e")
      case (Inl x)
      with ErrorEvent have d: "deliver h script b ev = b\<lparr> uncaught := Some x \<rparr>"
        by (simp add: deliver_def)
      from Cons.prems have "future (b\<lparr> uncaught := Some x \<rparr>) = Pending"
        and "\<not> listening (b\<lparr> uncaught := Some x \<rparr>)"
        by simp_all
      from Cons.IH [OF this] d Inl ErrorEvent show ?thesis by (simp add: run_Cons)
    next
      case (Inr a)
      then obtain w where "a = Reject w" using on_error_Reject by blast
      with Inr Cons.prems ErrorEvent show ?thesis
        by (simp add: run_Cons deliver_def run_settled)
    qed
  qed
qed

lemma substring_tag: "String_substring (a # b # c # d # rest) 0 (Some 3) = [a, b, c]"
  by (simp add: String_substring_def Let_def)

lemma substring_payload: "String_substring (a # b # c # d # rest) 4 None = rest"
  by (simp add: String_substring_def Let_def)

lemma settle_not_raw: "p \<noteq> Rejected (Raw e) \<Longrightarrow> settle a p \<noteq> Rejected (Raw e)"
  by (cases a; cases p) simp_all

lemma deliver_not_raw:
  "future b \<noteq> Rejected (Raw e) \<Longrightarrow> future (deliver h script b ev) \<noteq> Rejected (Raw e)"
  by (auto simp: deliver_def settle_not_raw split: event.splits sum.splits)

lemma run_not_raw:
  "future b \<noteq> Rejected (Raw e) \<Longrightarrow> future (run h script b events) \<noteq> Rejected (Raw e)"
  by (induction events arbitrary: b) (simp_all add: run_Nil run_Cons deliver_not_raw)

text \<open>
  When the synthesizer returns a text and the constructor starts a worker, the caller
  gets the promise, and the worker's events decide what becomes of it.
\<close>

lemma workerToPromise_started:
  "buildWorkerScript func dependencies = Inr script \<Longrightarrow>
   new_Worker h script (worker_options workerProps payload) = Inr events \<Longrightarrow>
   dependencies \<noteq> Undefined \<Longrightarrow> workerProps \<noteq> Undefined \<Longrightarrow>
     completion (workerToPromise h func payload dependencies workerProps) =
       Returned (run h script registered events)"
  by (simp add: workerToPromise_def executor_def new_Promise_def Let_def)

lemma sample_started:
  "\<exists>script.
     completion (workerToPromise (node events) (Function name source) payload (Array [])
        (Object [])) =
       Returned (run (node events) script registered events)"
proof -
  obtain script where s: "buildWorkerScript (Function name source) (Array []) = Inr script"
    using buildWorkerScript_Function [of name source "[]"] by simp
  have "new_Worker (node events) script (worker_options (Object []) payload) = Inr events"
    by (simp add: node_def node_Worker_def worker_options_def)
  with s show ?thesis
    by (intro exI [of _ script] workerToPromise_started) simp_all
qed

text \<open>
  Claim C3, as the code has it. The future settles at most once: a run of events changes
  the promise at most one time, and exactly when it ends settled; once the promise is
  settled no later event changes it. After one \<^verbatim>\<open>message\<close> event has been delivered, every
  later \<^verbatim>\<open>message\<close> event leaves the bridge as it is. When the first event is a failure
  signal whose listener returns, or a message on which the listener resolves or rejects,
  that event decides the outcome, whatever follows.
\<close>

theorem future_settles_at_most_once:
  "settlements h script registered events \<le> 1
   \<and> (settlements h script registered events = 1) =
       (future (run h script registered events) \<noteq> Pending)
   \<and> (future (run h script registered events) \<noteq> Pending \<longrightarrow>
        future (run h script registered (events @ later)) =
        future (run h script registered events))
   \<and> deliver h script (run h script (deliver h script b (MessageEvent first)) between)
         (MessageEvent second) =
       run h script (deliver h script b (MessageEvent first)) between
   \<and> (on_error script e = Inr a \<longrightarrow>
        future (run h script registered (ErrorEvent e # events)) = settle a Pending)
   \<and> (on_message h script msg = Inr a' \<longrightarrow> a' \<noteq> Nothing \<longrightarrow>
        future (run h script registered (MessageEvent msg # events)) = settle a' Pending)"
proof -
  have p: "future registered = Pending" by (simp add: registered_def)
  show ?thesis
    by (simp add: settlements_pending [OF p] run_append run_settled later_message_dropped
        first_error_decides first_message_decides)
qed

theorem future_settles_at_most_once_witness:
  "settlements (node []) ''f()'' registered
     [MessageEvent (Str ''res:8''), MessageEvent (Str ''res:1'')] = 1
   \<and> future (run (node []) ''f()'' registered
        ([MessageEvent (Str ''res:8''), MessageEvent (Str ''res:1'')] @ [ErrorEvent test_error])) =
       Fulfilled (Number 8)
   \<and> future (run (node []) ''f()'' registered
        (ErrorEvent test_error # [MessageEvent (Str ''res:8''), MessageEvent (Str ''res:1'')])) =
       Rejected (Wrapped \<lparr> message = ''Test Error'',
                            stack = ''Error: Test Error'' @ banner @ ''1: f()'' @ [CHR 0x0A] @ ''    '',
                            generatedCode = ''1: f()'' \<rparr>)"
proof -
  have n: "numbered ''f()'' = ''1: f()''"
    by (simp add: numbered_def enumerate_eq_zip decimal.simps digit_def)
  have t: "trim ''1: f()'' = ''1: f()''"
    by (simp add: trim_def WhiteSpace_def)
  have e: "on_error ''f()'' test_error =
      Inr (Reject \<lparr> message = ''Test Error'',
                     stack = ''Error: Test Error'' @ banner @ ''1: f()'' @ [CHR 0x0A] @ ''    '',
                     generatedCode = ''1: f()'' \<rparr>)"
    by (simp add: on_error_def test_error_def new_WorkerError_def Let_def n t)
  have m: "on_message (node []) ''f()'' (Str ''res:8'') = Inr (Resolve (Number 8))"
    by (simp add: on_message_def substring_tag substring_payload node_def node_parse_def)
  have r: "future (run (node []) ''f()'' registered
        [MessageEvent (Str ''res:8''), MessageEvent (Str ''res:1'')]) = Fulfilled (Number 8)"
    using first_message_decides [OF m, of "[MessageEvent (Str ''res:1'')]"] by simp
  show ?thesis
    using future_settles_at_most_once
      [of "node []" "''f()''" "[MessageEvent (Str ''res:8''), MessageEvent (Str ''res:1'')]"
          "[ErrorEvent test_error]" registered "Str ''res:8''" "[]" "Str ''res:1''" test_error
          "Reject \<lparr> message = ''Test Error'',
                     stack = ''Error: Test Error'' @ banner @ ''1: f()'' @ [CHR 0x0A] @ ''    '',
                     generatedCode = ''1: f()'' \<rparr>"
          "Str ''res:8''" "Resolve (Number 8)"]
      e m r
    by simp
qed

text \<open>
  Claim C3 as stated fails: the promise of \<^verbatim>\<open>silentFunc\<close> never settles, so its worker
  emits no message and no failure signal, and the returned future is left pending; it has
  settled zero times, not once.
\<close>

theorem silent_worker_counterexample:
  "returned_future (workerToPromise (node []) silentFunc payload_2_4 (Array []) (Object [])) =
     Some Pending"
  using sample_started [of "[]" "''silentFunc''" _ payload_2_4]
  by (auto simp: silentFunc_def returned_future_def run_Nil registered_def)

text \<open>
  Claim C4. For every value \<^verbatim>\<open>v\<close> that the host's JSON functions take to a text and back,
  the harness posts \<^verbatim>\<open>res:\<close> followed by that text, and on this message, as the first
  one, the bridge resolves the future with \<^verbatim>\<open>v\<close>, whatever the worker emits later. For every
  error value whose \<^verbatim>\<open>message\<close> and \<^verbatim>\<open>stack\<close> are strings and whose object with these two
  fields the host takes to a text and back, the harness posts \<^verbatim>\<open>err:\<close> followed by that
  text, and on this message the bridge rejects the future with the WorkerError built
  from that message, that stack and the program text: its message is the very message,
  and its stack starts with the very stack and goes on with the dump of the program.
\<close>

theorem message_parsing_inverts_formatting:
  "(JSON_stringify h v = Inr (Str text) \<longrightarrow> JSON_parse h text = Inr v \<longrightarrow>
      then_callback h v = Inr (Str (''res:'' @ text))
      \<and> future (run h script registered (MessageEvent (Str (''res:'' @ text)) # events)) =
          Fulfilled v)
   \<and> (get err ''message'' = Inr (Str m) \<longrightarrow> get err ''stack'' = Inr (Str s) \<longrightarrow>
      JSON_stringify h (Object [(''message'', Str m), (''stack'', Str s)]) = Inr (Str text') \<longrightarrow>
      JSON_parse h text' = Inr (Object [(''message'', Str m), (''stack'', Str s)]) \<longrightarrow>
      catch_callback h err = Inr (Str (''err:'' @ text'))
      \<and> new_WorkerError (Str m) (Str s) script =
          Inr \<lparr> message = m,
                 stack = s @ banner @ trim (numbered script) @ [CHR 0x0A] @ ''    '',
                 generatedCode = numbered script \<rparr>
      \<and> future (run h script registered (MessageEvent (Str (''err:'' @ text')) # events)) =
          Rejected (Wrapped \<lparr> message = m,
                               stack = s @ banner @ trim (numbered script) @ [CHR 0x0A] @ ''    '',
                               generatedCode = numbered script \<rparr>))"
proof -
  have res: "future (run h script registered (MessageEvent (Str (''res:'' @ text)) # events)) =
      Fulfilled v" if "JSON_parse h text = Inr v"
  proof -
    from that have "on_message h script (Str (''res:'' @ text)) = Inr (Resolve v)"
      by (simp add: on_message_def substring_tag substring_payload)
    from first_message_decides [OF this] show ?thesis by simp
  qed
  have err: "future (run h script registered (MessageEvent (Str (''err:'' @ text')) # events)) =
      Rejected (Wrapped \<lparr> message = m,
                           stack = s @ banner @ trim (numbered script) @ [CHR 0x0A] @ ''    '',
                           generatedCode = numbered script \<rparr>)"
    if "JSON_parse h text' = Inr (Object [(''message'', Str m), (''stack'', Str s)])"
  proof -
    from that have "on_message h script (Str (''err:'' @ text')) =
        Inr (Reject \<lparr> message = m,
                       stack = s @ banner @ trim (numbered script) @ [CHR 0x0A] @ ''    '',
                       generatedCode = numbered script \<rparr>)"
      by (simp add: on_message_def substring_tag substring_payload new_WorkerError_def Let_def)
    from first_message_decides [OF this] show ?thesis by simp
  qed
  from res err show ?thesis
    by (simp add: then_callback_def catch_callback_def new_WorkerError_def Let_def)
qed

theorem message_parsing_inverts_formatting_witness:
  "then_callback (node []) (Number 8) = Inr (Str ''res:8'')
   \<and> future (run (node []) ''f()'' registered [MessageEvent (Str ''res:8'')]) = Fulfilled (Number 8)
   \<and> catch_callback (node []) test_error = Inr (Str (''err:'' @ test_error_text))
   \<and> future (run (node []) ''f()'' registered [MessageEvent (Str (''err:'' @ test_error_text))]) =
       Rejected (Wrapped \<lparr> message = ''Test Error'',
                            stack = ''Error: Test Error'' @ banner @ trim (numbered ''f()'')
                                    @ [CHR 0x0A] @ ''    '',
                            generatedCode = numbered ''f()'' \<rparr>)"
  using message_parsing_inverts_formatting
    [of "node []" "Number 8" "''8''" "''f()''" "[]" test_error "''Test Error''"
        "''Error: Test Error''" test_error_text]
  by (simp add: node_def node_parse_def node_stringify_def test_error_def test_error_text_def)

text \<open>
  Claim C6, as the code has it. When the first outbound message is a string whose first
  three characters are neither \<^verbatim>\<open>res\<close> nor \<^verbatim>\<open>err\<close>, the bridge neither resolves nor rejects
  the future on it, and no later message settles it. The future stays pending unless a
  failure signal follows on which the \<^verbatim>\<open>error\<close> listener returns: the first such signal
  rejects the future with the WorkerError built from its message and its stack. A signal
  on which the listener throws settles nothing.
\<close>

theorem unknown_tag_leaves_pending:
  assumes "String_substring m 0 (Some 3) \<noteq> ''res''"
    and "String_substring m 0 (Some 3) \<noteq> ''err''"
  shows "future (deliver h script registered (MessageEvent (Str m))) = Pending
    \<and> future (run h script registered (MessageEvent (Str m) # events)) =
        (case first_rejection script events of
           None \<Rightarrow> Pending
         | Some w \<Rightarrow> Rejected (Wrapped w))"
proof -
  define b where "b = deliver h script registered (MessageEvent (Str m))"
  have b: "future b = Pending \<and> \<not> listening b"
    using assms
    by (cases "JSON_parse h (String_substring m 4 None)")
       (simp_all add: b_def deliver_def registered_def on_message_other_tag)
  then have "future (run h script b events) =
       (case first_rejection script events of
          None \<Rightarrow> Pending
        | Some w \<Rightarrow> Rejected (Wrapped w))"
    by (intro run_deaf_pending) simp_all
  with b show ?thesis by (simp add: run_Cons b_def)
qed

theorem unknown_tag_leaves_pending_witness:
  "String_substring ''abc:1'' 0 (Some 3) \<noteq> ''res''
   \<and> String_substring ''abc:1'' 0 (Some 3) \<noteq> ''err''
   \<and> future (deliver (node []) ''f()'' registered (MessageEvent (Str ''abc:1''))) = Pending
   \<and> future (run (node []) ''f()'' registered
        [MessageEvent (Str ''abc:1''), MessageEvent (Str ''res:8''), ErrorEvent Null]) = Pending
   \<and> future (run (node []) ''f()'' registered
        [MessageEvent (Str ''abc:1''), ErrorEvent Null, ErrorEvent test_error]) =
       Rejected (Wrapped \<lparr> message = ''Test Error'',
                            stack = ''Error: Test Error'' @ banner @ trim (numbered ''f()'')
                                    @ [CHR 0x0A] @ ''    '',
                            generatedCode = numbered ''f()'' \<rparr>)"
proof -
  have a: "String_substring ''abc:1'' 0 (Some 3) \<noteq> ''res''"
    and b: "String_substring ''abc:1'' 0 (Some 3) \<noteq> ''err''"
    by (simp_all add: substring_tag)
  have n: "on_error ''f()'' Null = Inl (TypeError ''Cannot read properties of null: message'')"
    by (simp add: on_error_def)
  have e: "on_error ''f()'' test_error =
      Inr (Reject \<lparr> message = ''Test Error'',
                     stack = ''Error: Test Error'' @ banner @ trim (numbered ''f()'')
                             @ [CHR 0x0A] @ ''    '',
                     generatedCode = numbered ''f()'' \<rparr>)"
    by (simp add: on_error_def test_error_def new_WorkerError_def Let_def)
  from unknown_tag_leaves_pending
      [OF a b, of "node []" "''f()''" "[MessageEvent (Str ''res:8''), ErrorEvent Null]"]
    unknown_tag_leaves_pending
      [OF a b, of "node []" "''f()''" "[ErrorEvent Null, ErrorEvent test_error]"]
    a b n e
  show ?thesis by simp
qed

text \<open>
  Claim C6 as stated fails: the worker of \<^verbatim>\<open>chattyFunc\<close> posts \<^verbatim>\<open>abc:1\<close> and then dies of
  the error the function throws; the \<^verbatim>\<open>error\<close> listener is still registered and rejects
  the future, which does not remain unsettled.
\<close>

theorem unknown_tag_then_failure_counterexample:
  "returned_future
     (workerToPromise (node [MessageEvent (Str ''abc:1''), ErrorEvent test_error])
        chattyFunc payload_2_4 (Array []) (Object [])) \<noteq> Some Pending"
proof -
  obtain script where s:
    "completion (workerToPromise (node [MessageEvent (Str ''abc:1''), ErrorEvent test_error])
        chattyFunc payload_2_4 (Array []) (Object [])) =
       Returned (run (node [MessageEvent (Str ''abc:1''), ErrorEvent test_error]) script registered
         [MessageEvent (Str ''abc:1''), ErrorEvent test_error])"
    unfolding chattyFunc_def using sample_started by blast
  have "on_message (node [MessageEvent (Str ''abc:1''), ErrorEvent test_error]) script
      (Str ''abc:1'') = Inr Nothing"
    by (simp add: on_message_def substring_tag substring_payload node_def node_parse_def)
  then have "future (run (node [MessageEvent (Str ''abc:1''), ErrorEvent test_error]) script
      registered [MessageEvent (Str ''abc:1''), ErrorEvent test_error]) \<noteq> Pending"
    by (simp add: run_def deliver_def registered_def on_error_def test_error_def
        new_WorkerError_def Let_def)
  with s show ?thesis
    by (simp add: returned_future_def)
qed

text \<open>
  Claim C10, as the code has it. A worker function that returns \<^verbatim>\<open>undefined\<close> makes the
  harness post \<^verbatim>\<open>res:undefined\<close>, since \<^verbatim>\<open>JSON.stringify(undefined)\<close> is \<^verbatim>\<open>undefined\<close>. When the
  text after the separator of the first outbound message is not JSON, \<^verbatim>\<open>JSON.parse\<close> throws
  inside the message listener before any settlement: the exception leaves the listener
  uncaught, the message settles nothing and, the listener being gone, no later message
  does. The future stays pending, and no WorkerError reaches the caller, unless a failure
  signal follows on which the \<^verbatim>\<open>error\<close> listener returns: the first such signal rejects the
  future with a WorkerError.
\<close>

theorem unparsable_message_settles_nothing:
  "(JSON_stringify h Undefined = Inr Undefined \<longrightarrow>
      then_callback h Undefined = Inr (Str ''res:undefined''))
   \<and> (JSON_parse h (String_substring m 4 None) = Inl x \<longrightarrow>
      on_message h script (Str m) = Inl x
      \<and> deliver h script registered (MessageEvent (Str m)) =
          \<lparr> future = Pending, listening = False, uncaught = Some x \<rparr>
      \<and> future (run h script registered (MessageEvent (Str m) # events)) =
          (case first_rejection script events of
             None \<Rightarrow> Pending
           | Some w \<Rightarrow> Rejected (Wrapped w)))"
proof -
  have "future (run h script registered (MessageEvent (Str m) # events)) =
          (case first_rejection script events of
             None \<Rightarrow> Pending
           | Some w \<Rightarrow> Rejected (Wrapped w))"
    if p: "JSON_parse h (String_substring m 4 None) = Inl x"
  proof -
    have "future (run h script \<lparr> future = Pending, listening = False, uncaught = Some x \<rparr>
        events) =
          (case first_rejection script events of
             None \<Rightarrow> Pending
           | Some w \<Rightarrow> Rejected (Wrapped w))"
      by (intro run_deaf_pending) simp_all
    with deliver_unparsable [OF p] show ?thesis by (simp add: run_Cons)
  qed
  then show ?thesis
    by (simp add: then_callback_def on_message_unparsable deliver_unparsable)
qed

theorem unparsable_message_settles_nothing_witness:
  "then_callback (node []) Undefined = Inr (Str ''res:undefined'')
   \<and> on_message (node []) ''f()'' (Str ''res:undefined'') = Inl (SyntaxError ''Unexpected token'')
   \<and> future (run (node []) ''f()'' registered
        [MessageEvent (Str ''res:undefined''), MessageEvent (Str ''res:8'')]) = Pending"
  using unparsable_message_settles_nothing
    [of "node []" "''res:undefined''" "SyntaxError ''Unexpected token''" "''f()''"
        "[MessageEvent (Str ''res:8'')]"]
  by (simp add: substring_payload node_def node_parse_def node_stringify_def test_error_def
      test_error_text_def)

text \<open>
  Claim C10 as stated fails: the worker of \<^verbatim>\<open>lateFunc\<close> posts \<^verbatim>\<open>res:undefined\<close>, on which
  \<^verbatim>\<open>JSON.parse\<close> throws in the message listener, and later dies of the error its timer
  throws; the \<^verbatim>\<open>error\<close> listener is still registered and rejects the future with a
  WorkerError, so the future does settle.
\<close>

theorem unparsable_then_failure_counterexample:
  "returned_future
     (workerToPromise (node [MessageEvent (Str ''res:undefined''), ErrorEvent test_error])
        lateFunc payload_2_4 (Array []) (Object [])) \<noteq> Some Pending"
proof -
  obtain script where s:
    "completion
       (workerToPromise (node [MessageEvent (Str ''res:undefined''), ErrorEvent test_error])
          lateFunc payload_2_4 (Array []) (Object [])) =
       Returned (run (node [MessageEvent (Str ''res:undefined''), ErrorEvent test_error]) script
         registered [MessageEvent (Str ''res:undefined''), ErrorEvent test_error])"
    unfolding lateFunc_def using sample_started by blast
  have "on_message (node [MessageEvent (Str ''res:undefined''), ErrorEvent test_error]) script
      (Str ''res:undefined'') = Inl (SyntaxError ''Unexpected token'')"
    by (simp add: on_message_def substring_tag substring_payload node_def node_parse_def
        test_error_text_def)
  then have "future (run (node [MessageEvent (Str ''res:undefined''), ErrorEvent test_error])
      script registered [MessageEvent (Str ''res:undefined''), ErrorEvent test_error]) \<noteq> Pending"
    by (simp add: run_def deliver_def registered_def on_error_def test_error_def
        new_WorkerError_def Let_def)
  with s show ?thesis
    by (simp add: returned_future_def)
qed

text \<open>
  Whatever the worker emits, the two listeners never reject the future with anything
  but a WorkerError.
\<close>

theorem listeners_reject_wrapped:
  "future (run h script registered events) \<noteq> Rejected (Raw e)"
  by (rule run_not_raw) (simp add: registered_def)

text \<open>
  A failure signal that arrives first and carries a message string and a stack string
  rejects the future with the WorkerError built from them and the program text, whatever
  follows.
\<close>

theorem failure_signal_rejects:
  "get e ''message'' = Inr (Str m) \<Longrightarrow> get e ''stack'' = Inr (Str s) \<Longrightarrow>
     future (run h script registered (ErrorEvent e # events)) =
       Rejected (Wrapped \<lparr> message = m,
                            stack = s @ banner @ trim (numbered script) @ [CHR 0x0A] @ ''    '',
                            generatedCode = numbered script \<rparr>)"
proof -
  assume "get e ''message'' = Inr (Str m)" and "get e ''stack'' = Inr (Str s)"
  then have "on_error script e =
      Inr (Reject \<lparr> message = m,
                     stack = s @ banner @ trim (numbered script) @ [CHR 0x0A] @ ''    '',
                     generatedCode = numbered script \<rparr>)"
    by (simp add: on_error_def new_WorkerError_def Let_def)
  from first_error_decides [OF this] show ?thesis by simp
qed

theorem failure_signal_rejects_witness:
  "future (run (node []) ''f()'' registered [ErrorEvent test_error, MessageEvent (Str ''res:8'')]) =
     Rejected (Wrapped \<lparr> message = ''Test Error'',
                          stack = ''Error: Test Error'' @ banner @ trim (numbered ''f()'')
                                  @ [CHR 0x0A] @ ''    '',
                          generatedCode = numbered ''f()'' \<rparr>)"
  using failure_signal_rejects
    [of test_error "''Test Error''" "''Error: Test Error''" "node []" "''f()''"
        "[MessageEvent (Str ''res:8'')]"]
  by (simp add: test_error_def)

section \<open>workerToPromise\<close>

text \<open>
  The promise constructor returns a promise whatever its executor does, so the \<^verbatim>\<open>catch\<close>
  clause of \<^verbatim>\<open>workerToPromise\<close> is never entered: the call either throws what the
  synthesizer threw, or returns the promise, rejected with what \<^verbatim>\<open>new Worker\<close> threw or
  left to the events of the worker.
\<close>

lemma new_Promise_returns: "new_Promise executed \<noteq> Inl e"
  by (simp add: new_Promise_def split: sum.splits)

lemma completion_eq:
  "completion (workerToPromise h func payload dependencies workerProps) =
     (case buildWorkerScript func (if dependencies = Undefined then Array [] else dependencies) of
        Inl e \<Rightarrow> Thrown (Raw e)
      | Inr script \<Rightarrow>
          (case new_Worker h script
                  (worker_options (if workerProps = Undefined then Object [] else workerProps)
                     payload) of
             Inl e \<Rightarrow>
               Returned \<lparr> future = Rejected (Raw e), listening = False, uncaught = None \<rparr>
           | Inr events \<Rightarrow> Returned (run h script registered events)))"
  by (simp add: workerToPromise_def executor_def new_Promise_def Let_def split: sum.splits)

text \<open>
  The \<^verbatim>\<open>catch\<close> clause of lines 58 to 60 is dead code: no call of \<^verbatim>\<open>workerToPromise\<close> ends by
  throwing a WorkerError.
\<close>

theorem catch_clause_is_dead:
  "completion (workerToPromise h func payload dependencies workerProps) \<noteq> Thrown (Wrapped w)"
  by (simp add: completion_eq split: sum.splits)

text \<open>
  Claim C1, as the code has it. When the synthesizer throws, \<^verbatim>\<open>workerToPromise\<close> returns no
  future: the call itself ends by throwing, and the worker constructor is never called,
  so no isolated unit is spawned.
\<close>

theorem synthesis_failure_is_thrown:
  "buildWorkerScript func (if dependencies = Undefined then Array [] else dependencies) = Inl e \<Longrightarrow>
     (\<exists>r. completion (workerToPromise h func payload dependencies workerProps) = Thrown r)
     \<and> returned_future (workerToPromise h func payload dependencies workerProps) = None
     \<and> constructed (workerToPromise h func payload dependencies workerProps) = []"
  by (simp add: workerToPromise_def returned_future_def Let_def)

theorem synthesis_failure_is_thrown_witness:
  "buildWorkerScript workerFunc
     (Array [Object [(''from'', Str ''lodash''), (''exports'', Str ''join'')]]) =
     Inl (TypeError ''dependency.exports.join is not a function'')
   \<and> (\<exists>r. completion (workerToPromise (node []) workerFunc payload_2_4
          (Array [Object [(''from'', Str ''lodash''), (''exports'', Str ''join'')]]) Undefined) =
        Thrown r)
   \<and> constructed (workerToPromise (node []) workerFunc payload_2_4
        (Array [Object [(''from'', Str ''lodash''), (''exports'', Str ''join'')]]) Undefined) = []"
proof -
  have f: "buildWorkerScript workerFunc
     (if Array [Object [(''from'', Str ''lodash''), (''exports'', Str ''join'')]] = Undefined
      then Array []
      else Array [Object [(''from'', Str ''lodash''), (''exports'', Str ''join'')]]) =
     Inl (TypeError ''dependency.exports.join is not a function'')"
    by (simp add: buildWorkerScript_def createDependencyStrings_def push_exports_def
        has_length_def)
  from synthesis_failure_is_thrown [OF f, of "node []" payload_2_4 Undefined] f
  show ?thesis by simp
qed

text \<open>
  Claim C1 as stated fails: called with \<^verbatim>\<open>undefined\<close> for the function, the synthesizer
  throws a TypeError on reading its \<^verbatim>\<open>name\<close>, and \<^verbatim>\<open>workerToPromise\<close> throws that TypeError as
  it is. The caller gets neither a rejected future nor a WorkerError.
\<close>

theorem synthesis_failure_counterexample:
  "workerToPromise (node []) (Value Undefined) payload_2_4 (Array []) (Object []) =
     \<lparr> constructed = [],
       completion = Thrown (Raw (TypeError ''Cannot read properties of undefined: name'')) \<rparr>"
  by (simp add: workerToPromise_def buildWorkerScript_def createDependencyStrings_def
      getFunctionString_def)

text \<open>
  Claim C2 fails on the code. The worker constructor refuses the options
  \<^verbatim>\<open>{execArgv: ['--title=x']}\<close> by throwing inside the promise executor; the promise
  constructor turns the exception into a rejection, the \<^verbatim>\<open>catch\<close> clause that would wrap
  it never runs, and the caller's future is rejected with the host's error as it is.
\<close>

theorem constructor_error_reaches_caller_raw:
  "completion (workerToPromise (node []) workerFunc payload_2_4 (Array [])
      (Object [(''execArgv'', Array [Str ''--title=x''])])) =
     Returned \<lparr> future = Rejected (Raw (HostError ''ERR_WORKER_INVALID_EXEC_ARGV'')),
                listening = False, uncaught = None \<rparr>"
proof -
  obtain script where s: "buildWorkerScript workerFunc (Array []) = Inr script"
    using buildWorkerScript_Function [of _ _ "[]"] by (simp add: workerFunc_def)
  have "new_Worker (node []) script
      (worker_options (Object [(''execArgv'', Array [Str ''--title=x''])]) payload_2_4) =
      Inl (HostError ''ERR_WORKER_INVALID_EXEC_ARGV'')"
    by (simp add: node_def node_Worker_def map_of_worker_options)
  with s show ?thesis
    by (simp add: workerToPromise_def executor_def new_Promise_def Let_def)
qed

section \<open>The synthesizer and the store\<close>

lemma and_then_case: "and_then m f = (case m of Inl e \<Rightarrow> Inl e | Inr x \<Rightarrow> f x)"
  by (cases m) simp_all

lemma push_exports_statement:
  "push_exports dependency depStrings =
     (case exports_statement dependency of
        Inl e \<Rightarrow> Inl e
      | Inr None \<Rightarrow> Inr depStrings
      | Inr (Some statement) \<Rightarrow> Inr (depStrings @ [statement]))"
  by (simp add: push_exports_def exports_statement_def and_then_case split: sum.splits)

lemma push_default_statement:
  "push_default dependency depStrings =
     (case default_statement_of dependency of
        Inl e \<Rightarrow> Inl e
      | Inr None \<Rightarrow> Inr depStrings
      | Inr (Some statement) \<Rightarrow> Inr (depStrings @ [statement]))"
  by (simp add: push_default_def default_statement_of_def and_then_case split: sum.splits)

lemma Array_push_last:
  "Array_push (length \<sigma>) v (\<sigma> @ [Array xs]) = \<sigma> @ [Array (xs @ [v])]"
  by (simp add: Array_push_def load_def)

lemma push_if_last:
  "push_if (length \<sigma>) evaluated (\<sigma> @ [Array (map Str depStrings)]) =
     (case evaluated of
        Inl e \<Rightarrow> (Inl e, \<sigma> @ [Array (map Str depStrings)])
      | Inr None \<Rightarrow> (Inr (), \<sigma> @ [Array (map Str depStrings)])
      | Inr (Some statement) \<Rightarrow> (Inr (), \<sigma> @ [Array (map Str (depStrings @ [statement]))]))"
  by (simp add: push_if_def Array_push_last split: sum.splits option.splits)

lemma for_of_store_last:
  "\<exists>pushed. for_of_store elements (length \<sigma>) (\<sigma> @ [Array (map Str depStrings)]) =
       (case for_of elements depStrings of Inl e \<Rightarrow> Inl e | Inr r \<Rightarrow> Inr (),
        \<sigma> @ [Array (map Str pushed)])
     \<and> (case for_of elements depStrings of Inl e \<Rightarrow> True | Inr r \<Rightarrow> pushed = r)"
proof (induction elements arbitrary: depStrings)
  case Nil
  then show ?case by simp
next
  case (Cons d rest)
  show ?case
  proof (cases "exports_statement d")
    case (Inl e)
    then show ?thesis
      by (intro exI [of _ depStrings]) (simp add: push_if_last push_exports_statement)
  next
    case (Inr first)
    define one where "one = (case first of None \<Rightarrow> depStrings | Some s \<Rightarrow> depStrings @ [s])"
    have p1: "push_if (length \<sigma>) (exports_statement d) (\<sigma> @ [Array (map Str depStrings)]) =
        (Inr (), \<sigma> @ [Array (map Str one)])"
      using Inr by (simp add: push_if_last one_def split: option.splits)
    have e1: "push_exports d depStrings = Inr one"
      using Inr by (simp add: push_exports_statement one_def split: option.splits)
    show ?thesis
    proof (cases "default_statement_of d")
      case (Inl e)
      then have "push_if (length \<sigma>) (default_statement_of d) (\<sigma> @ [Array (map Str one)]) =
          (Inl e, \<sigma> @ [Array (map Str one)])"
        by (simp add: push_if_last)
      with Inl show ?thesis
        by (intro exI [of _ one]) (simp add: p1 e1 push_default_statement)
    next
      case (Inr second)
      define two where "two = (case second of None \<Rightarrow> one | Some s \<Rightarrow> one @ [s])"
      have p2: "push_if (length \<sigma>) (default_statement_of d) (\<sigma> @ [Array (map Str one)]) =
          (Inr (), \<sigma> @ [Array (map Str two)])"
        using Inr by (simp add: push_if_last two_def split: option.splits)
      have e2: "push_default d one = Inr two"
        using Inr by (simp add: push_default_statement two_def split: option.splits)
      from Cons.IH [of two] show ?thesis
        by (simp add: p1 e1 p2 e2)
    qed
  qed
qed

lemma deref_valid: "valid \<sigma> d \<Longrightarrow> deref (\<sigma> @ added) d = deref \<sigma> d"
  by (cases d) (simp_all add: load_def nth_append)

lemma createDependencyStrings_store_eq:
  assumes "valid \<sigma> dependencies"
  shows "\<exists>pushed. createDependencyStrings_store dependencies \<sigma> =
      (createDependencyStrings (deref \<sigma> dependencies), \<sigma> @ [Array (map Str pushed)])"
proof (cases "iterate (deref \<sigma> dependencies)")
  case (Inl e)
  with assms show ?thesis
    by (intro exI [of _ "[]"])
       (simp add: createDependencyStrings_store_def createDependencyStrings_def allocate_def
          deref_valid)
next
  case (Inr elements)
  obtain pushed where p: "for_of_store elements (length \<sigma>) (\<sigma> @ [Array (map Str [])]) =
       (case for_of elements [] of Inl e \<Rightarrow> Inl e | Inr r \<Rightarrow> Inr (),
        \<sigma> @ [Array (map Str pushed)])"
    and q: "(case for_of elements [] of Inl e \<Rightarrow> True | Inr r \<Rightarrow> pushed = r)"
    using for_of_store_last [of elements \<sigma> "[]"] by blast
  show ?thesis
  proof (cases "for_of elements []")
    case (Inl e)
    with p Inr assms show ?thesis
      by (intro exI [of _ pushed])
         (simp add: createDependencyStrings_store_def createDependencyStrings_def allocate_def
            deref_valid)
  next
    case r: (Inr r)
    with q have "pushed = r" by simp
    with p r Inr assms show ?thesis
      by (intro exI [of _ pushed])
         (simp add: createDependencyStrings_store_def createDependencyStrings_def allocate_def
            deref_valid load_def Array_join_strings)
  qed
qed

lemma buildWorkerScript_store_eq:
  assumes "valid \<sigma> dependencies"
  shows "\<exists>pushed. buildWorkerScript_store func dependencies \<sigma> =
      (buildWorkerScript func (deref \<sigma> dependencies), \<sigma> @ [Array (map Str pushed)])"
proof -
  obtain pushed where "createDependencyStrings_store dependencies \<sigma> =
      (createDependencyStrings (deref \<sigma> dependencies), \<sigma> @ [Array (map Str pushed)])"
    using createDependencyStrings_store_eq [OF assms] by blast
  then show ?thesis
    by (intro exI [of _ pushed])
       (simp add: buildWorkerScript_store_def buildWorkerScript_def and_then_case
          split: sum.splits)
qed

text \<open>
  Claim C8. Called in any store with a function and the dependencies of the caller, the
  synthesizer returns what \<^verbatim>\<open>buildWorkerScript\<close> is of the function and of the value of the
  dependencies, a text or an exception: nothing else in the store bears on the result.
  It leaves every cell of the store as it was and adds one cell, its own array
  \<^verbatim>\<open>depStrings\<close>, which nothing refers to once it has returned: it has no effect beyond
  returning the text. A second call, made in the store the first has left, returns the
  same result, and so does a call in any other store on dependencies of the same value.
\<close>

theorem synthesis_deterministic:
  "valid \<sigma> dependencies \<Longrightarrow>
     fst (buildWorkerScript_store workerFunction dependencies \<sigma>) =
       buildWorkerScript workerFunction (deref \<sigma> dependencies)
     \<and> (\<exists>depStrings. snd (buildWorkerScript_store workerFunction dependencies \<sigma>) =
          \<sigma> @ [Array (map Str depStrings)])
     \<and> fst (buildWorkerScript_store workerFunction dependencies
          (snd (buildWorkerScript_store workerFunction dependencies \<sigma>))) =
        fst (buildWorkerScript_store workerFunction dependencies \<sigma>)
     \<and> (valid \<sigma>' dependencies' \<longrightarrow> deref \<sigma>' dependencies' = deref \<sigma> dependencies \<longrightarrow>
        fst (buildWorkerScript_store workerFunction dependencies' \<sigma>') =
        fst (buildWorkerScript_store workerFunction dependencies \<sigma>))"
proof -
  assume v: "valid \<sigma> dependencies"
  obtain pushed where one: "buildWorkerScript_store workerFunction dependencies \<sigma> =
      (buildWorkerScript workerFunction (deref \<sigma> dependencies), \<sigma> @ [Array (map Str pushed)])"
    using buildWorkerScript_store_eq [OF v] by blast
  have v': "valid (\<sigma> @ [Array (map Str pushed)]) dependencies"
    using v by (cases dependencies) simp_all
  obtain again where two:
    "buildWorkerScript_store workerFunction dependencies (\<sigma> @ [Array (map Str pushed)]) =
      (buildWorkerScript workerFunction (deref (\<sigma> @ [Array (map Str pushed)]) dependencies),
       (\<sigma> @ [Array (map Str pushed)]) @ [Array (map Str again)])"
    using buildWorkerScript_store_eq [OF v'] by blast
  have other: "fst (buildWorkerScript_store workerFunction dependencies' \<sigma>') =
      buildWorkerScript workerFunction (deref \<sigma>' dependencies')" if "valid \<sigma>' dependencies'"
    using buildWorkerScript_store_eq [OF that, of workerFunction] by auto
  from one two other show ?thesis
    by (auto simp: deref_valid [OF v])
qed

theorem synthesis_deterministic_witness:
  "valid [Array (map dependency_object [lodash]), payload_2_4] (At 0)
   \<and> fst (buildWorkerScript_store workerFunc (At 0)
          [Array (map dependency_object [lodash]), payload_2_4]) =
       buildWorkerScript workerFunc (Array (map dependency_object [lodash]))
   \<and> snd (buildWorkerScript_store workerFunc (At 0)
          [Array (map dependency_object [lodash]), payload_2_4]) =
       [Array (map dependency_object [lodash]), payload_2_4,
        Array [Str (named_statement ''join'' ''lodash''), Str (default_statement ''_'' ''lodash'')]]
   \<and> fst (buildWorkerScript_store workerFunc (At 2)
          [payload_2_4, Number 1, Array (map dependency_object [lodash])]) =
       fst (buildWorkerScript_store workerFunc (At 0)
          [Array (map dependency_object [lodash]), payload_2_4])"
proof -
  let ?\<sigma> = "[Array (map dependency_object [lodash]), payload_2_4]"
  let ?\<sigma>' = "[payload_2_4, Number 1, Array (map dependency_object [lodash])]"
  have v: "valid ?\<sigma> (At 0)" and v': "valid ?\<sigma>' (At 2)"
    by simp_all
  have same: "deref ?\<sigma>' (At 2) = deref ?\<sigma> (At 0)"
    by (simp add: load_def)
  have x: "exports_statement (dependency_object lodash) =
      Inr (Some (named_statement ''join'' ''lodash''))"
    by (simp add: exports_statement_def dependency_object_def lodash_def has_length_def)
  have y: "default_statement_of (dependency_object lodash) =
      Inr (Some (default_statement ''_'' ''lodash''))"
    by (simp add: default_statement_of_def dependency_object_def lodash_def has_length_def)
  have store: "snd (createDependencyStrings_store (At 0) ?\<sigma>) =
      ?\<sigma> @ [Array [Str (named_statement ''join'' ''lodash''),
                     Str (default_statement ''_'' ''lodash'')]]"
    by (simp add: createDependencyStrings_store_def allocate_def load_def x y push_if_def
        Array_push_def)
  have "snd (buildWorkerScript_store workerFunc (At 0) ?\<sigma>) =
      snd (createDependencyStrings_store (At 0) ?\<sigma>)"
    by (simp add: buildWorkerScript_store_def split: prod.splits sum.splits)
  with store have left: "snd (buildWorkerScript_store workerFunc (At 0) ?\<sigma>) =
      ?\<sigma> @ [Array [Str (named_statement ''join'' ''lodash''),
                     Str (default_statement ''_'' ''lodash'')]]"
    by simp
  from synthesis_deterministic [OF v, of workerFunc ?\<sigma>' "At 2"] v v' same left
  show ?thesis
    by (simp add: load_def)
qed

end
